theory Spec2Isabelle
  imports Complex_Main "HOL-Library.Sublist"
begin

section \<open>Python values\<close>

text \<open>
  A Python \<open>str\<close> is a sequence of Unicode code points; its length and its slices count
  code points. A code point is a natural number here, and \<open>lit\<close> reads an ASCII literal
  of the source.
\<close>

type_synonym pystr = "nat list"

definition lit :: "string \<Rightarrow> pystr" where
  "lit s = map of_char s"

text \<open>
  The values stored in the dictionaries the scraper builds: strings, integers, floats
  (the finite ones, as the reals they denote) and \<open>None\<close>. A dictionary is an
  association list in insertion order.
\<close>

datatype pyval = Str pystr | IntV int | FloatV real | NoneV

type_synonym pydict = "(pystr \<times> pyval) list"

text \<open>
  Exceptions are values. The classes the source distinguishes are the two PRAW classes of
  \<open>safe_api_call\<close>, \<open>AttributeError\<close> (what \<open>hasattr\<close> swallows), \<open>KeyError\<close> (a missing
  dictionary key or DataFrame column) and \<open>TypeError\<close>; every other exception is
  \<open>OtherError\<close>. The string is the message \<open>str(e)\<close>; for a \<open>KeyError\<close> it is the
  missing key.
\<close>

datatype exn =
    RedditAPIException pystr
  | ClientException pystr
  | AttributeError pystr
  | KeyError pystr
  | TypeError pystr
  | OtherError pystr

text \<open>
  What the program does besides computing values: it sleeps and it writes log lines.
  Both are recorded, in order, in a trace. A log line is recorded with its level only.
\<close>

datatype level = INFO | WARNING | ERROR

datatype event = Sleep real | Log level

subsection \<open>Library functions the source calls\<close>

text \<open>
  The source calls \<open>str.lower\<close>, \<open>str.upper\<close>, \<open>json.dumps\<close>, \<open>datetime.strftime\<close> and
  \<open>str\<close> on a float. They belong to Python, not to the repository, and are parameters
  of the model. \<open>strftime\<close> stands for
  \<open>datetime.fromtimestamp(t, tz=timezone.utc).strftime('%Y-%m-%d %H:%M:%S')\<close>, which
  raises on a timestamp out of range.
\<close>

record pylib =
  str_lower :: "pystr \<Rightarrow> pystr"
  str_upper :: "pystr \<Rightarrow> pystr"
  json_dumps :: "pydict list \<Rightarrow> pystr"
  strftime :: "real \<Rightarrow> exn + pystr"
  float_str :: "real \<Rightarrow> pystr"

subsection \<open>Substring test\<close>

text \<open>Python's \<open>needle in haystack\<close> on strings.\<close>

fun startswith :: "pystr \<Rightarrow> pystr \<Rightarrow> bool" where
  "startswith [] hay = True"
| "startswith (c # cs) [] = False"
| "startswith (c # cs) (h # hs) = (c = h \<and> startswith cs hs)"

fun str_in :: "pystr \<Rightarrow> pystr \<Rightarrow> bool" where
  "str_in needle [] = (needle = [])"
| "str_in needle (h # hs) = (startswith needle (h # hs) \<or> str_in needle hs)"

section \<open>Configuration\<close>

record config =
  subreddits :: "pystr list"
  keywords_cfg :: "pystr list"
  start_date :: real
  end_date :: real
  min_upvotes :: int
  output_file :: pystr
  request_delay :: real
  max_retries :: int
  retry_delay :: real

text \<open>The module-level \<open>CONFIG\<close>; the two dates are the epoch seconds of
  2024-11-08 and 2025-11-08, 00:00 UTC.\<close>

definition CONFIG :: config where
  "CONFIG = \<lparr>
     subreddits = [lit ''GlobalOffensive'', lit ''csgo'', lit ''CS2'', lit ''gaming'',
       lit ''Steam''],
     keywords_cfg = [lit ''case opening'', lit ''gambling'', lit ''loot box'', lit ''lootbox'',
       lit ''addiction'', lit ''skin gambling'', lit ''case unboxing'', lit ''csgo case'',
       lit ''cs2 case''],
     start_date = 1731024000,
     end_date = 1762560000,
     min_upvotes = 5,
     output_file = lit ''reddit_cs_gambling_data.csv'',
     request_delay = 1,
     max_retries = 3,
     retry_delay = 5 \<rparr>"

section \<open>Predicate filters\<close>

text \<open>The \<open>for\<close> loop of \<open>matches_keywords\<close>, over the keywords still to try.\<close>

fun matches_loop :: "pylib \<Rightarrow> pystr \<Rightarrow> pystr list \<Rightarrow> bool" where
  "matches_loop L text_lower [] = False"
| "matches_loop L text_lower (keyword # rest) =
     (if str_in (str_lower L keyword) text_lower then True
      else matches_loop L text_lower rest)"

text \<open>\<open>text\<close> is \<open>None\<close> when the caller passes Python's \<open>None\<close>; \<open>not text\<close> holds for
  \<open>None\<close> and for the empty string.\<close>

definition matches_keywords :: "pylib \<Rightarrow> pystr option \<Rightarrow> pystr list \<Rightarrow> bool" where
  "matches_keywords L text kws =
     (case text of
        None \<Rightarrow> False
      | Some t \<Rightarrow> if t = [] then False else matches_loop L (str_lower L t) kws)"

definition is_in_date_range :: "config \<Rightarrow> real \<Rightarrow> bool" where
  "is_in_date_range cfg post_timestamp =
     (start_date cfg \<le> post_timestamp \<and> post_timestamp \<le> end_date cfg)"

definition meets_upvote_threshold :: "config \<Rightarrow> int \<Rightarrow> bool" where
  "meets_upvote_threshold cfg score = (score \<ge> min_upvotes cfg)"

section \<open>Candidate items\<close>

text \<open>
  A submission and its comments are PRAW objects: reading an attribute either yields a
  value or raises (the objects are duck-typed and fetch lazily). An attribute is therefore
  a value of type \<open>exn + 'a\<close>, the same at every read. An attribute that may be
  \<open>None\<close> holds an option. \<open>submission_subreddit\<close> is \<open>submission.subreddit.display_name\<close>;
  \<open>submission_comments\<close> is what \<open>submission.comments.replace_more(limit=0)\<close> followed by
  \<open>submission.comments.list()\<close> yields: the flattened replies in order, or the exception
  either call raises.
\<close>

type_synonym 'a attr = "exn + 'a"

record comment =
  comment_body :: "pystr option attr"
  comment_author :: "pystr option attr"
  comment_score :: "int attr"
  comment_created_utc :: "real attr"

record submission =
  submission_id :: "pystr attr"
  submission_score :: "int attr"
  submission_created_utc :: "real attr"
  submission_title :: "pystr option attr"
  submission_selftext :: "pystr option attr"
  submission_author :: "pystr option attr"
  submission_subreddit :: "pystr attr"
  submission_permalink :: "pystr attr"
  submission_link_flair_text :: "pystr option attr"
  submission_num_comments :: "int attr"
  submission_comments :: "comment list attr"

text \<open>Sequencing of steps that may raise: the first exception ends the sequence.\<close>

definition bindE :: "exn + 'a \<Rightarrow> ('a \<Rightarrow> exn + 'b) \<Rightarrow> exn + 'b" where
  "bindE m f = (case m of Inl e \<Rightarrow> Inl e | Inr x \<Rightarrow> f x)"

text \<open>\<open>str(x.author) if x.author else '[deleted]'\<close>: a Redditor object is truthy, and its
  \<open>str\<close> is its name.\<close>

definition author_or_deleted :: "pystr option \<Rightarrow> pystr" where
  "author_or_deleted a = (case a of None \<Rightarrow> lit ''[deleted]'' | Some n \<Rightarrow> n)"

section \<open>Item extractor\<close>

text \<open>
  The body of the loop over the replies (lines 289-296), for one reply: \<open>Inr None\<close> when
  the reply is skipped, \<open>Inr (Some d)\<close> when the summary \<open>d\<close> is appended, \<open>Inl e\<close> when
  the body raises \<open>e\<close>. \<open>hasattr\<close> answers False on an \<open>AttributeError\<close> and lets every
  other exception through.
\<close>

definition comment_step :: "pylib \<Rightarrow> config \<Rightarrow> comment \<Rightarrow> exn + pydict option" where
  "comment_step L cfg c =
     (case comment_body c of
        Inl (AttributeError m) \<Rightarrow> Inr None
      | Inl e \<Rightarrow> Inl e
      | Inr None \<Rightarrow> Inr None
      | Inr (Some body) \<Rightarrow>
          if body = [] \<or> body = lit ''[deleted]'' then Inr None
          else if \<not> matches_keywords L (Some body) (keywords_cfg cfg) then Inr None
          else
            bindE (comment_author c) (\<lambda>author.
            bindE (comment_score c) (\<lambda>score.
            bindE (comment_created_utc c) (\<lambda>created.
              Inr (Some [(lit ''author'', Str (author_or_deleted author)),
                         (lit ''body'', Str (take 500 body)),
                         (lit ''score'', IntV score),
                         (lit ''created_utc'', FloatV created)])))))"

text \<open>The loop itself: the list \<open>top_comments\<close> when the loop is left, and the exception
  that ended it, if one did.\<close>

fun comments_loop ::
  "pylib \<Rightarrow> config \<Rightarrow> comment list \<Rightarrow> pydict list \<Rightarrow> pydict list \<times> exn option" where
  "comments_loop L cfg [] top_comments = (top_comments, None)"
| "comments_loop L cfg (c # cs) top_comments =
     (case comment_step L cfg c of
        Inl e \<Rightarrow> (top_comments, Some e)
      | Inr None \<Rightarrow> comments_loop L cfg cs top_comments
      | Inr (Some d) \<Rightarrow> comments_loop L cfg cs (top_comments @ [d]))"

text \<open>
  The inner \<open>try\<close> (lines 285-298). Its handler logs a warning whose message reads
  \<open>submission.id\<close>; when that read raises, nothing is logged and the exception leaves
  the handler.
\<close>

definition comments_handler ::
  "submission \<Rightarrow> pydict list \<Rightarrow> event list \<times> (exn + pydict list)" where
  "comments_handler s top_comments =
     (case submission_id s of
        Inl e \<Rightarrow> ([], Inl e)
      | Inr i \<Rightarrow> ([Log WARNING], Inr top_comments))"

definition extract_comments ::
  "pylib \<Rightarrow> config \<Rightarrow> submission \<Rightarrow> event list \<times> (exn + pydict list)" where
  "extract_comments L cfg s =
     (case submission_comments s of
        Inl e \<Rightarrow> comments_handler s []
      | Inr cs \<Rightarrow>
          (case comments_loop L cfg (take 5 cs) [] of
             (top_comments, None) \<Rightarrow> ([], Inr top_comments)
           | (top_comments, Some e) \<Rightarrow> comments_handler s top_comments))"

text \<open>The dictionary \<open>post_data\<close> (lines 301-317); its entries are evaluated in order.\<close>

definition post_data :: "pylib \<Rightarrow> submission \<Rightarrow> pydict list \<Rightarrow> exn + pydict" where
  "post_data L s top_comments =
     (let comments_json = (if top_comments \<noteq> [] then json_dumps L top_comments else [])
      in
        bindE (submission_id s) (\<lambda>sid.
        bindE (submission_title s) (\<lambda>title.
        bindE (submission_author s) (\<lambda>author.
        bindE (submission_selftext s) (\<lambda>selftext.
        bindE (submission_score s) (\<lambda>score.
        bindE (submission_created_utc s) (\<lambda>created.
        bindE (strftime L created) (\<lambda>date.
        bindE (submission_subreddit s) (\<lambda>display_name.
        bindE (submission_permalink s) (\<lambda>permalink.
        bindE (submission_link_flair_text s) (\<lambda>flair.
        bindE (submission_num_comments s) (\<lambda>num_comments.
          Inr [(lit ''post_id'', Str sid),
               (lit ''title'', (case title of None \<Rightarrow> NoneV | Some t \<Rightarrow> Str t)),
               (lit ''author'', Str (author_or_deleted author)),
               (lit ''content'', Str (case selftext of None \<Rightarrow> [] | Some t \<Rightarrow> take 2000 t)),
               (lit ''upvotes'', IntV score),
               (lit ''timestamp'', FloatV created),
               (lit ''date'', Str date),
               (lit ''subreddit'', Str display_name),
               (lit ''url'', Str (lit ''https://www.reddit.com'' @ permalink)),
               (lit ''flair'', Str (case flair of None \<Rightarrow> [] | Some f \<Rightarrow> f)),
               (lit ''comment_count'', IntV num_comments),
               (lit ''top_comments'', Str comments_json)]))))))))))))"

text \<open>The body of the outer \<open>try\<close> (lines 270-319): \<open>Inr None\<close> is \<open>return None\<close>,
  \<open>Inl e\<close> an exception that reaches the outer handler.\<close>

definition extract_body ::
  "pylib \<Rightarrow> config \<Rightarrow> submission \<Rightarrow> event list \<times> (exn + pydict option)" where
  "extract_body L cfg s =
     (case submission_score s of
        Inl e \<Rightarrow> ([], Inl e)
      | Inr score \<Rightarrow>
     if \<not> meets_upvote_threshold cfg score then ([], Inr None)
     else
     (case submission_created_utc s of
        Inl e \<Rightarrow> ([], Inl e)
      | Inr created \<Rightarrow>
     if \<not> is_in_date_range cfg created then ([], Inr None)
     else
     (case submission_title s of
        Inl e \<Rightarrow> ([], Inl e)
      | Inr title \<Rightarrow>
     (case submission_selftext s of
        Inl e \<Rightarrow> ([], Inl e)
      | Inr selftext \<Rightarrow>
     (let title_match = matches_keywords L title (keywords_cfg cfg);
          content_match = matches_keywords L selftext (keywords_cfg cfg)
      in
     if \<not> (title_match \<or> content_match) then ([], Inr None)
     else
     (case extract_comments L cfg s of
        (ev, Inl e) \<Rightarrow> (ev, Inl e)
      | (ev, Inr top_comments) \<Rightarrow>
          (case post_data L s top_comments of
             Inl e \<Rightarrow> (ev, Inl e)
           | Inr d \<Rightarrow> (ev, Inr (Some d)))))))))"

text \<open>
  \<open>extract_post_data\<close>: the outer handler logs an error whose message reads
  \<open>submission.id\<close> and returns \<open>None\<close>; when that read raises, the exception leaves the
  function.
\<close>

definition extract_post_data ::
  "pylib \<Rightarrow> config \<Rightarrow> submission \<Rightarrow> event list \<times> (exn + pydict option)" where
  "extract_post_data L cfg s =
     (case extract_body L cfg s of
        (ev, Inr r) \<Rightarrow> (ev, Inr r)
      | (ev, Inl e) \<Rightarrow>
          (case submission_id s of
             Inl e' \<Rightarrow> (ev, Inl e')
           | Inr i \<Rightarrow> (ev @ [Log ERROR], Inr None)))"

section \<open>Transport: retries\<close>

text \<open>
  \<open>safe_api_call(func)\<close>: \<open>func\<close> is called once per attempt and its outcome may differ
  from call to call, so it is a function of the attempt number. The delays are taken to
  be non-negative (\<open>time.sleep\<close> raises on a negative one).
\<close>

definition rate_limited :: "pylib \<Rightarrow> pystr \<Rightarrow> bool" where
  "rate_limited L error_message =
     (str_in (lit ''RATE_LIMIT'') (str_upper L error_message) \<or>
      str_in (lit ''429'') error_message)"

text \<open>The three \<open>except\<close> clauses: what a failed attempt logs and how long it sleeps.\<close>

definition on_failure :: "pylib \<Rightarrow> config \<Rightarrow> nat \<Rightarrow> exn \<Rightarrow> event list" where
  "on_failure L cfg attempt e =
     (case e of
        RedditAPIException error_message \<Rightarrow>
          Log WARNING #
          (if rate_limited L error_message
           then [Log WARNING, Sleep (retry_delay cfg * (real attempt + 1))]
           else [])
      | ClientException m \<Rightarrow> [Log WARNING, Sleep (retry_delay cfg)]
      | _ \<Rightarrow> [Log ERROR, Sleep (retry_delay cfg)])"

text \<open>The \<open>for attempt in range(max_retries)\<close> loop and the final \<open>raise last_exception\<close>;
  \<open>raise None\<close> is a \<open>TypeError\<close>.\<close>

fun attempts_loop ::
  "pylib \<Rightarrow> config \<Rightarrow> (nat \<Rightarrow> exn + 'a) \<Rightarrow> nat list \<Rightarrow> exn option \<Rightarrow>
   event list \<times> (exn + 'a)" where
  "attempts_loop L cfg func [] last_exception =
     ([Log ERROR],
      Inl (case last_exception of
             None \<Rightarrow> TypeError (lit ''exceptions must derive from BaseException'')
           | Some e \<Rightarrow> e))"
| "attempts_loop L cfg func (attempt # rest) last_exception =
     (case func attempt of
        Inr result \<Rightarrow> ([Sleep (request_delay cfg)], Inr result)
      | Inl e \<Rightarrow>
          (case attempts_loop L cfg func rest (Some e) of
             (ev, r) \<Rightarrow> (Sleep (request_delay cfg) # on_failure L cfg attempt e @ ev, r)))"

definition safe_api_call ::
  "pylib \<Rightarrow> config \<Rightarrow> (nat \<Rightarrow> exn + 'a) \<Rightarrow> event list \<times> (exn + 'a)" where
  "safe_api_call L cfg func = attempts_loop L cfg func [0 ..< nat (max_retries cfg)] None"

section \<open>Query aggregator\<close>

text \<open>
  The remote service: for a subreddit, a query keyword, a result cap and an attempt
  number, what \<open>list(subreddit.search(keyword, limit=limit, sort='new',
  time_filter='all'))\<close> yields or raises.
\<close>

type_synonym reddit_api = "pystr \<Rightarrow> pystr \<Rightarrow> int \<Rightarrow> nat \<Rightarrow> exn + submission list"

text \<open>\<open>post_data['title'][:50]\<close> of the log line at line 368.\<close>

definition title_prefix :: "pydict \<Rightarrow> exn + pystr" where
  "title_prefix d =
     (case map_of d (lit ''title'') of
        None \<Rightarrow> Inl (KeyError (lit ''title''))
      | Some (Str t) \<Rightarrow> Inr (take 50 t)
      | Some v \<Rightarrow> Inl (TypeError (lit ''object is not subscriptable'')))"

text \<open>
  The loop over one query's results (lines 360-368): the trace, the list \<open>posts_data\<close>
  when the loop is left, and the exception that ended it, if one did. The set
  \<open>all_posts\<close> is written and never read; only its read of \<open>submission.id\<close> is kept.
\<close>

fun results_loop ::
  "pylib \<Rightarrow> config \<Rightarrow> submission list \<Rightarrow> pydict list \<Rightarrow>
   event list \<times> pydict list \<times> exn option" where
  "results_loop L cfg [] posts_data = ([], posts_data, None)"
| "results_loop L cfg (s # rest) posts_data =
     (case submission_id s of
        Inl e \<Rightarrow> ([], posts_data, Some e)
      | Inr i \<Rightarrow>
          (case extract_post_data L cfg s of
             (ev, Inl e) \<Rightarrow> (ev, posts_data, Some e)
           | (ev, Inr None) \<Rightarrow>
               (case results_loop L cfg rest posts_data of
                  (ev', r) \<Rightarrow> (ev @ ev', r))
           | (ev, Inr (Some d)) \<Rightarrow>
               if d = [] then
                 (case results_loop L cfg rest posts_data of
                    (ev', r) \<Rightarrow> (ev @ ev', r))
               else
                 (case title_prefix d of
                    Inl e \<Rightarrow> (ev, posts_data @ [d], Some e)
                  | Inr t \<Rightarrow>
                      (case results_loop L cfg rest (posts_data @ [d]) of
                         (ev', r) \<Rightarrow> (ev @ Log INFO # ev', r)))))"

text \<open>The loop over the keywords (lines 350-372), with its \<open>try\<close> per keyword.\<close>

fun keywords_loop ::
  "pylib \<Rightarrow> config \<Rightarrow> (pystr \<Rightarrow> nat \<Rightarrow> exn + submission list) \<Rightarrow> pystr list \<Rightarrow>
   pydict list \<Rightarrow> event list \<times> pydict list" where
  "keywords_loop L cfg search [] posts_data = ([], posts_data)"
| "keywords_loop L cfg search (keyword # rest) posts_data =
     (case safe_api_call L cfg (search keyword) of
        (ev, Inl e) \<Rightarrow>
          (case keywords_loop L cfg search rest posts_data of
             (ev', r) \<Rightarrow> (Log INFO # ev @ Log WARNING # ev', r))
      | (ev, Inr search_results) \<Rightarrow>
          (case results_loop L cfg search_results posts_data of
             (ev1, posts_data', None) \<Rightarrow>
               (case keywords_loop L cfg search rest posts_data' of
                  (ev', r) \<Rightarrow> (Log INFO # ev @ ev1 @ ev', r))
           | (ev1, posts_data', Some e) \<Rightarrow>
               (case keywords_loop L cfg search rest posts_data' of
                  (ev', r) \<Rightarrow> (Log INFO # ev @ ev1 @ Log WARNING # ev', r))))"

text \<open>\<open>search_subreddit\<close>; \<open>reddit\<close> is the module-level client, \<open>None\<close> before it is
  initialised. \<open>reddit.subreddit(name)\<close> builds a lazy handle and does not raise.\<close>

definition search_subreddit ::
  "pylib \<Rightarrow> config \<Rightarrow> reddit_api option \<Rightarrow> pystr \<Rightarrow> int \<Rightarrow> event list \<times> pydict list" where
  "search_subreddit L cfg reddit subreddit_name limit =
     (case reddit of
        None \<Rightarrow> ([Log ERROR], [])
      | Some api \<Rightarrow>
          (case keywords_loop L cfg (\<lambda>keyword. api subreddit_name keyword limit)
                  (keywords_cfg cfg) [] of
             (ev, posts_data) \<Rightarrow> (Log INFO # ev @ [Log INFO], posts_data)))"

section \<open>Cross-group deduplicator\<close>

text \<open>Python's \<open>==\<close> on the values a dictionary holds; an integer equals the float of
  the same value.\<close>

fun py_eq :: "pyval \<Rightarrow> pyval \<Rightarrow> bool" where
  "py_eq (Str a) (Str b) = (a = b)"
| "py_eq (IntV i) (IntV j) = (i = j)"
| "py_eq (IntV i) (FloatV r) = (real_of_int i = r)"
| "py_eq (FloatV r) (IntV i) = (r = real_of_int i)"
| "py_eq (FloatV r) (FloatV q) = (r = q)"
| "py_eq NoneV NoneV = True"
| "py_eq v w = False"

text \<open>
  The loop of lines 475-480 over \<open>all_posts_data\<close>. The set \<open>seen_ids\<close> is the list of
  its members; \<open>post['post_id']\<close> raises \<open>KeyError\<close> on a dictionary without that key.
\<close>

fun unique_loop :: "pydict list \<Rightarrow> pyval list \<Rightarrow> pydict list \<Rightarrow> exn + pydict list" where
  "unique_loop [] seen_ids unique_posts = Inr unique_posts"
| "unique_loop (post # rest) seen_ids unique_posts =
     (case map_of post (lit ''post_id'') of
        None \<Rightarrow> Inl (KeyError (lit ''post_id''))
      | Some pid \<Rightarrow>
          if \<not> list_ex (py_eq pid) seen_ids
          then unique_loop rest (seen_ids @ [pid]) (unique_posts @ [post])
          else unique_loop rest seen_ids unique_posts)"

section \<open>Incremental persister\<close>

subsection \<open>Tables\<close>

text \<open>
  A pandas DataFrame: its column labels and its rows, each row holding one cell per
  column. A cell is a value or missing (\<open>NaN\<close>), the latter \<open>None\<close>.
  The dataset file is the table it holds: \<open>to_csv\<close> stores a table under a path and
  \<open>read_csv\<close> gives the stored table back. The text encoding of the file, and the types
  pandas infers when it parses that text, are not part of the model.
\<close>

type_synonym cell = "pyval option"

record dataframe =
  columns :: "pystr list"
  rows :: "cell list list"

type_synonym filesystem = "pystr \<rightharpoonup> dataframe"

definition column_order :: "pystr list" where
  "column_order =
     [lit ''post_id'', lit ''title'', lit ''author'', lit ''content'', lit ''upvotes'',
      lit ''timestamp'', lit ''date'', lit ''subreddit'', lit ''url'', lit ''flair'',
      lit ''comment_count'', lit ''top_comments'']"

text \<open>The cell of row \<open>r\<close> under the label \<open>c\<close>, in a table with labels \<open>cs\<close>; missing
  when the table has no such column.\<close>

definition cell_at :: "pystr list \<Rightarrow> cell list \<Rightarrow> pystr \<Rightarrow> cell" where
  "cell_at cs r c = (case map_of (zip cs r) c of None \<Rightarrow> None | Some v \<Rightarrow> v)"

text \<open>\<open>pd.DataFrame(list_of_dicts)\<close>: the columns are the keys in the order they first
  appear; a dictionary without a key gets a missing cell there.\<close>

definition DataFrame :: "pydict list \<Rightarrow> dataframe" where
  "DataFrame posts =
     (let cols = rev (remdups (rev (concat (map (map fst) posts))))
      in \<lparr> columns = cols, rows = map (\<lambda>post. map (map_of post) cols) posts \<rparr>)"

text \<open>\<open>df[col] = ''\<close> for a new label \<open>col\<close>.\<close>

definition add_column :: "dataframe \<Rightarrow> pystr \<Rightarrow> pyval \<Rightarrow> dataframe" where
  "add_column df col v =
     \<lparr> columns = columns df @ [col], rows = map (\<lambda>r. r @ [Some v]) (rows df) \<rparr>"

text \<open>The loop of lines 408-410.\<close>

fun ensure_columns :: "pystr list \<Rightarrow> dataframe \<Rightarrow> dataframe" where
  "ensure_columns [] df = df"
| "ensure_columns (col # rest) df =
     ensure_columns rest
       (if col \<notin> set (columns df) then add_column df col (Str []) else df)"

text \<open>\<open>df[labels]\<close>: a \<open>KeyError\<close> when a label is not a column of \<open>df\<close>.\<close>

definition select_columns :: "dataframe \<Rightarrow> pystr list \<Rightarrow> exn + dataframe" where
  "select_columns df labels =
     (case filter (\<lambda>c. c \<notin> set (columns df)) labels of
        [] \<Rightarrow> Inr \<lparr> columns = labels,
                   rows = map (\<lambda>r. map (cell_at (columns df) r) labels) (rows df) \<rparr>
      | c # cs \<Rightarrow> Inl (KeyError c))"

text \<open>\<open>pd.concat([a, b], ignore_index=True)\<close>: the columns of \<open>a\<close>, then those of \<open>b\<close>
  that \<open>a\<close> lacks; the rows of \<open>a\<close>, then those of \<open>b\<close>, with missing cells where a table
  lacks a column.\<close>

definition concat_df :: "dataframe \<Rightarrow> dataframe \<Rightarrow> dataframe" where
  "concat_df a b =
     (let cols = columns a @ filter (\<lambda>c. c \<notin> set (columns a)) (columns b)
      in \<lparr> columns = cols,
           rows = map (\<lambda>r. map (cell_at (columns a) r) cols) (rows a) @
                  map (\<lambda>r. map (cell_at (columns b) r) cols) (rows b) \<rparr>)"

subsection \<open>Identities as strings\<close>

text \<open>\<open>str\<close> of a non-negative integer, in decimal.\<close>

fun digits :: "nat \<Rightarrow> pystr" where
  "digits n = (if n < 10 then [48 + n] else digits (n div 10) @ [48 + n mod 10])"

declare digits.simps [simp del]

text \<open>\<open>str(v)\<close> of a dictionary value, and \<open>astype(str)\<close> of a cell.\<close>

definition py_str :: "pylib \<Rightarrow> pyval \<Rightarrow> pystr" where
  "py_str L v =
     (case v of
        Str s \<Rightarrow> s
      | IntV i \<Rightarrow> (if i < 0 then 45 # digits (nat (- i)) else digits (nat i))
      | FloatV r \<Rightarrow> float_str L r
      | NoneV \<Rightarrow> lit ''None'')"

definition cell_str :: "pylib \<Rightarrow> cell \<Rightarrow> pystr" where
  "cell_str L c = (case c of None \<Rightarrow> lit ''nan'' | Some v \<Rightarrow> py_str L v)"

subsection \<open>save_to_csv\<close>

text \<open>The list comprehension of line 423: \<open>post['post_id']\<close> raises \<open>KeyError\<close> on a
  dictionary without that key.\<close>

fun new_posts_of :: "pylib \<Rightarrow> pystr set \<Rightarrow> pydict list \<Rightarrow> exn + pydict list" where
  "new_posts_of L existing_ids [] = Inr []"
| "new_posts_of L existing_ids (post # rest) =
     (case map_of post (lit ''post_id'') of
        None \<Rightarrow> Inl (KeyError (lit ''post_id''))
      | Some pid \<Rightarrow>
          bindE (new_posts_of L existing_ids rest) (\<lambda>new_posts.
            Inr (if py_str L pid \<notin> existing_ids then post # new_posts else new_posts)))"

text \<open>
  The body of the \<open>try\<close> (lines 398-438): the trace, the exception raised, if any, and
  the file system afterwards. Every \<open>raise\<close> of the body precedes the write, so an
  exception leaves the file system as it was.
\<close>

definition save_body ::
  "pylib \<Rightarrow> pydict list \<Rightarrow> pystr \<Rightarrow> filesystem \<Rightarrow> event list \<times> exn option \<times> filesystem" where
  "save_body L posts_data filename fs =
     (case select_columns (ensure_columns column_order (DataFrame posts_data)) column_order of
        Inl e \<Rightarrow> ([], Some e, fs)
      | Inr df \<Rightarrow>
     (case fs filename of
        None \<Rightarrow> ([Log INFO, Log INFO], None, fs(filename \<mapsto> df))
      | Some existing_df \<Rightarrow>
          if lit ''post_id'' \<notin> set (columns existing_df)
          then ([], Some (KeyError (lit ''post_id'')), fs)
          else
            (let existing_ids =
                   set (map (\<lambda>r. cell_str L (cell_at (columns existing_df) r (lit ''post_id'')))
                          (rows existing_df))
             in
             (case new_posts_of L existing_ids posts_data of
                Inl e \<Rightarrow> ([], Some e, fs)
              | Inr new_posts \<Rightarrow>
                  if new_posts \<noteq> [] then
                    (case select_columns (DataFrame new_posts) column_order of
                       Inl e \<Rightarrow> ([], Some e, fs)
                     | Inr new_df \<Rightarrow>
                         ([Log INFO, Log INFO], None,
                          fs(filename \<mapsto> concat_df existing_df new_df)))
                  else ([Log INFO], None, fs)))))"

definition save_to_csv ::
  "pylib \<Rightarrow> config \<Rightarrow> pydict list \<Rightarrow> pystr option \<Rightarrow> filesystem \<Rightarrow>
   event list \<times> exn option \<times> filesystem" where
  "save_to_csv L cfg posts_data filename fs =
     (if posts_data = [] then ([Log WARNING], None, fs)
      else
        (case save_body L posts_data
                (case filename of None \<Rightarrow> output_file cfg | Some f \<Rightarrow> f) fs of
           (ev, None, fs') \<Rightarrow> (ev, None, fs')
         | (ev, Some e, fs') \<Rightarrow> (ev @ [Log ERROR], Some e, fs')))"

section \<open>Driver\<close>

text \<open>The loop over the target subreddits (lines 466-472).\<close>

fun subreddits_loop ::
  "pylib \<Rightarrow> config \<Rightarrow> reddit_api option \<Rightarrow> pystr list \<Rightarrow> pydict list \<Rightarrow>
   event list \<times> pydict list" where
  "subreddits_loop L cfg reddit [] all_posts_data = ([], all_posts_data)"
| "subreddits_loop L cfg reddit (subreddit_name # rest) all_posts_data =
     (case search_subreddit L cfg reddit subreddit_name 1000 of
        (ev, posts_data) \<Rightarrow>
          (case subreddits_loop L cfg reddit rest (all_posts_data @ posts_data) of
             (ev', r) \<Rightarrow> (ev @ ev', r)))"

text \<open>
  \<open>main\<close> from line 463 on, once the client is initialised and the start-up lines are
  logged: collect, remove duplicates, save. An exception is logged and raised again.
\<close>

definition main ::
  "pylib \<Rightarrow> config \<Rightarrow> reddit_api option \<Rightarrow> filesystem \<Rightarrow>
   event list \<times> exn option \<times> filesystem" where
  "main L cfg reddit fs =
     (case subreddits_loop L cfg reddit (subreddits cfg) [] of
        (ev, all_posts_data) \<Rightarrow>
          (case unique_loop all_posts_data [] [] of
             Inl e \<Rightarrow> (ev @ [Log ERROR], Some e, fs)
           | Inr unique_posts \<Rightarrow>
               if unique_posts \<noteq> [] then
                 (case save_to_csv L cfg unique_posts None fs of
                    (ev', None, fs') \<Rightarrow> (ev @ Log INFO # ev' @ [Log INFO], None, fs')
                  | (ev', Some e, fs') \<Rightarrow> (ev @ Log INFO # ev' @ [Log ERROR], Some e, fs'))
               else (ev @ [Log INFO, Log WARNING], None, fs)))"

section \<open>A sample library\<close>

text \<open>
  An instance of the library parameters, for evaluating the model at concrete inputs.
  It agrees with Python on the inputs used below: ASCII text without control characters,
  floats with an integral value below \<open>10^16\<close>, timestamps of the years 1 to 9999.
\<close>

definition ascii_lower :: "pystr \<Rightarrow> pystr" where
  "ascii_lower s = map (\<lambda>c. if 65 \<le> c \<and> c \<le> 90 then c + 32 else c) s"

definition ascii_upper :: "pystr \<Rightarrow> pystr" where
  "ascii_upper s = map (\<lambda>c. if 97 \<le> c \<and> c \<le> 122 then c - 32 else c) s"

definition integral_float_str :: "real \<Rightarrow> pystr" where
  "integral_float_str r =
     (if r < 0 then 45 # digits (nat (- \<lfloor>r\<rfloor>)) else digits (nat \<lfloor>r\<rfloor>)) @ lit ''.0''"

text \<open>JSON text of a string: quotes and backslashes escaped.\<close>

definition json_string :: "pystr \<Rightarrow> pystr" where
  "json_string s =
     34 # concat (map (\<lambda>c. if c = 34 \<or> c = 92 then [92, c] else [c]) s) @ [34]"

definition json_value :: "pyval \<Rightarrow> pystr" where
  "json_value v =
     (case v of
        Str s \<Rightarrow> json_string s
      | IntV i \<Rightarrow> (if i < 0 then 45 # digits (nat (- i)) else digits (nat i))
      | FloatV r \<Rightarrow> integral_float_str r
      | NoneV \<Rightarrow> lit ''null'')"

fun join :: "pystr \<Rightarrow> pystr list \<Rightarrow> pystr" where
  "join sep [] = []"
| "join sep [x] = x"
| "join sep (x # y # ys) = x @ sep @ join sep (y # ys)"

definition json_object :: "pydict \<Rightarrow> pystr" where
  "json_object d =
     lit ''{'' @ join (lit '', '') (map (\<lambda>(k, v). json_string k @ lit '': '' @ json_value v) d)
     @ lit ''}''"

definition json_list :: "pydict list \<Rightarrow> pystr" where
  "json_list ds = lit ''['' @ join (lit '', '') (map json_object ds) @ lit '']''"

text \<open>\<open>%Y-%m-%d %H:%M:%S\<close> of a timestamp in UTC, by the days-to-civil-date
  computation of the proleptic Gregorian calendar.\<close>

definition two_digits :: "nat \<Rightarrow> pystr" where
  "two_digits n = [48 + n div 10 mod 10, 48 + n mod 10]"

definition utc_strftime :: "real \<Rightarrow> exn + pystr" where
  "utc_strftime t =
     (let secs = \<lfloor>t\<rfloor>;
          days = secs div 86400;
          sod = nat (secs mod 86400);
          z = days + 719468;
          era = z div 146097;
          doe = z mod 146097;
          yoe = (doe - doe div 1460 + doe div 36524 - doe div 146096) div 365;
          doy = doe - (365 * yoe + yoe div 4 - yoe div 100);
          mp = (5 * doy + 2) div 153;
          d = doy - (153 * mp + 2) div 5 + 1;
          m = (if mp < 10 then mp + 3 else mp - 9);
          y = yoe + era * 400 + (if m \<le> 2 then 1 else 0)
      in if y < 1 \<or> 9999 < y then Inl (OtherError (lit ''year is out of range''))
         else Inr (two_digits (nat y div 100) @ two_digits (nat y) @ lit ''-'' @
                   two_digits (nat m) @ lit ''-'' @ two_digits (nat d) @ lit '' '' @
                   two_digits (sod div 3600) @ lit '':'' @
                   two_digits (sod div 60 mod 60) @ lit '':'' @ two_digits (sod mod 60)))"

definition sample_lib :: pylib where
  "sample_lib =
     \<lparr> str_lower = ascii_lower, str_upper = ascii_upper, json_dumps = json_list,
       strftime = utc_strftime, float_str = integral_float_str \<rparr>"

section \<open>Notions used in the statements\<close>






text \<open>The identity of a record, and a record that has one.\<close>

definition post_id_of :: "pydict \<Rightarrow> pyval" where
  "post_id_of post = the (map_of post (lit ''post_id''))"

definition has_post_id :: "pydict \<Rightarrow> bool" where
  "has_post_id post = (map_of post (lit ''post_id'') \<noteq> None)"

text \<open>A record with all twelve fields, and a table whose rows fit its columns.\<close>

definition complete_record :: "pydict \<Rightarrow> bool" where
  "complete_record post = list_all (\<lambda>c. map_of post c \<noteq> None) column_order"


text \<open>The row a record contributes to a table with the given columns: its value under
  each of the twelve fixed columns, a missing cell under any other column.\<close>

definition row_of :: "pystr list \<Rightarrow> pydict \<Rightarrow> cell list" where
  "row_of cols post = map (\<lambda>c. if c \<in> set column_order then map_of post c else None) cols"

text \<open>The identities, as strings, that a table holds in its \<open>post_id\<close> column.\<close>

definition ids_of :: "pylib \<Rightarrow> dataframe \<Rightarrow> pystr set" where
  "ids_of L df =
     set (map (\<lambda>r. cell_str L (cell_at (columns df) r (lit ''post_id''))) (rows df))"

text \<open>The seconds slept in a trace, in order.\<close>

fun sleeps :: "event list \<Rightarrow> real list" where
  "sleeps [] = []"
| "sleeps (Sleep d # ev) = d # sleeps ev"
| "sleeps (Log l # ev) = sleeps ev"

section \<open>Sample inputs\<close>

text \<open>A candidate with score 10, created 2025-01-01 00:00:00 UTC, a title that contains a
  keyword, an empty body and no replies; and the record extracted from it.\<close>

definition sample_submission :: submission where
  "sample_submission =
     \<lparr> submission_id = Inr (lit ''1hq2abc''),
       submission_score = Inr 10,
       submission_created_utc = Inr 1735689600,
       submission_title = Inr (Some (lit ''My Case Opening results'')),
       submission_selftext = Inr (Some []),
       submission_author = Inr (Some (lit ''alice'')),
       submission_subreddit = Inr (lit ''csgo''),
       submission_permalink = Inr (lit ''/r/csgo/comments/1hq2abc/''),
       submission_link_flair_text = Inr None,
       submission_num_comments = Inr 0,
       submission_comments = Inr [] \<rparr>"

definition sample_record :: "pystr \<Rightarrow> pydict" where
  "sample_record replies =
     [(lit ''post_id'', Str (lit ''1hq2abc'')),
      (lit ''title'', Str (lit ''My Case Opening results'')),
      (lit ''author'', Str (lit ''alice'')),
      (lit ''content'', Str []),
      (lit ''upvotes'', IntV 10),
      (lit ''timestamp'', FloatV 1735689600),
      (lit ''date'', Str (lit ''2025-01-01 00:00:00'')),
      (lit ''subreddit'', Str (lit ''csgo'')),
      (lit ''url'', Str (lit ''https://www.reddit.com/r/csgo/comments/1hq2abc/'')),
      (lit ''flair'', Str []),
      (lit ''comment_count'', IntV 0),
      (lit ''top_comments'', Str replies)]"




text \<open>A record with the twelve fields, of a given identity and title.\<close>

definition post_row :: "pyval \<Rightarrow> pystr \<Rightarrow> pydict" where
  "post_row pid title =
     [(lit ''post_id'', pid),
      (lit ''title'', Str title),
      (lit ''author'', Str (lit ''alice'')),
      (lit ''content'', Str []),
      (lit ''upvotes'', IntV 10),
      (lit ''timestamp'', FloatV 1735689600),
      (lit ''date'', Str (lit ''2025-01-01 00:00:00'')),
      (lit ''subreddit'', Str (lit ''csgo'')),
      (lit ''url'', Str (lit ''https://www.reddit.com/r/csgo/'')),
      (lit ''flair'', Str []),
      (lit ''comment_count'', IntV 0),
      (lit ''top_comments'', Str [])]"

text \<open>The same record without its last field, \<open>top_comments\<close>.\<close>

definition post_without_replies :: "pyval \<Rightarrow> pystr \<Rightarrow> pydict" where
  "post_without_replies pid title = take 11 (post_row pid title)"

text \<open>The dataset that holds the given records under the twelve fixed columns.\<close>

definition stored :: "pydict list \<Rightarrow> dataframe" where
  "stored posts = \<lparr>columns = column_order, rows = map (row_of column_order) posts\<rparr>"

section \<open>Properties of the filters\<close>

lemma startswith_iff: "startswith needle hay \<longleftrightarrow> (\<exists>ss. hay = needle @ ss)"
  by (induction needle hay rule: startswith.induct) auto

lemma str_in_iff: "str_in needle hay \<longleftrightarrow> (\<exists>ps ss. hay = ps @ needle @ ss)"
proof (induction hay)
  case Nil
  then show ?case by auto
next
  case (Cons h hs)
  have "(\<exists>ps ss. h # hs = ps @ needle @ ss) \<longleftrightarrow>
        (\<exists>ss. h # hs = needle @ ss) \<or> (\<exists>ps ss. hs = ps @ needle @ ss)"
  proof
    assume "\<exists>ps ss. h # hs = ps @ needle @ ss"
    then obtain ps ss where e: "h # hs = ps @ needle @ ss" by blast
    show "(\<exists>ss. h # hs = needle @ ss) \<or> (\<exists>ps ss. hs = ps @ needle @ ss)"
    proof (cases ps)
      case Nil
      with e show ?thesis by auto
    next
      case (Cons p ps')
      with e have "hs = ps' @ needle @ ss" by simp
      then show ?thesis by blast
    qed
  next
    assume "(\<exists>ss. h # hs = needle @ ss) \<or> (\<exists>ps ss. hs = ps @ needle @ ss)"
    then show "\<exists>ps ss. h # hs = ps @ needle @ ss"
    proof
      assume "\<exists>ss. h # hs = needle @ ss"
      then obtain ss where "h # hs = [] @ needle @ ss" by auto
      then show ?thesis by blast
    next
      assume "\<exists>ps ss. hs = ps @ needle @ ss"
      then obtain ps ss where "h # hs = (h # ps) @ needle @ ss" by auto
      then show ?thesis by blast
    qed
  qed
  with Cons show ?case by (simp add: startswith_iff)
qed

lemma matches_loop_iff:
  "matches_loop L txt kws \<longleftrightarrow> (\<exists>k \<in> set kws. str_in (str_lower L k) txt)"
  by (induction kws) auto


text \<open>
  Claim C5. \<open>matches_keywords\<close> is false for an absent text and for the empty text, whatever
  the keywords; for any other text it is true exactly when the lowercased text contains the
  lowercased form of some keyword as a contiguous substring.
\<close>

theorem matches_keywords_substring:
  "matches_keywords L None K = False \<and>
   matches_keywords L (Some []) K = False \<and>
   (T \<noteq> [] \<longrightarrow>
      matches_keywords L (Some T) K =
        (\<exists>k \<in> set K. \<exists>ps ss. str_lower L T = ps @ str_lower L k @ ss))"
  by (simp add: matches_keywords_def matches_loop_iff str_in_iff)

theorem matches_keywords_substring_witness:
  "lit ''A Showcase'' \<noteq> [] \<and>
   matches_keywords sample_lib (Some (lit ''A Showcase'')) [lit ''Gambling'', lit ''CASE''] \<and>
   (\<exists>k \<in> set [lit ''Gambling'', lit ''CASE'']. \<exists>ps ss.
      str_lower sample_lib (lit ''A Showcase'') = ps @ str_lower sample_lib k @ ss)"
proof -
  have ne: "lit ''A Showcase'' \<noteq> []"
    by (simp add: lit_def)
  have m: "matches_keywords sample_lib (Some (lit ''A Showcase''))
             [lit ''Gambling'', lit ''CASE'']"
    by (simp add: matches_keywords_def sample_lib_def ascii_lower_def lit_def)
  from matches_keywords_substring
         [of sample_lib "[lit ''Gambling'', lit ''CASE'']" "lit ''A Showcase''"] ne m
  show ?thesis by blast
qed

section \<open>Properties of the item extractor\<close>

lemma bindE_Inr [simp]: "bindE (Inr x) f = f x"
  by (simp add: bindE_def)

lemma bindE_Inl [simp]: "bindE (Inl e) f = Inl e"
  by (simp add: bindE_def)




lemma extract_body_low_score:
  "submission_score s = Inr score \<Longrightarrow> \<not> meets_upvote_threshold cfg score \<Longrightarrow>
   extract_body L cfg s = ([], Inr None)"
  by (simp add: extract_body_def)

lemma extract_body_out_of_range:
  "submission_score s = Inr score \<Longrightarrow> meets_upvote_threshold cfg score \<Longrightarrow>
   submission_created_utc s = Inr created \<Longrightarrow> \<not> is_in_date_range cfg created \<Longrightarrow>
   extract_body L cfg s = ([], Inr None)"
  by (simp add: extract_body_def)

lemma extract_body_no_match:
  "submission_score s = Inr score \<Longrightarrow> meets_upvote_threshold cfg score \<Longrightarrow>
   submission_created_utc s = Inr created \<Longrightarrow> is_in_date_range cfg created \<Longrightarrow>
   submission_title s = Inr title \<Longrightarrow> submission_selftext s = Inr selftext \<Longrightarrow>
   \<not> (matches_keywords L title (keywords_cfg cfg) \<or>
      matches_keywords L selftext (keywords_cfg cfg)) \<Longrightarrow>
   extract_body L cfg s = ([], Inr None)"
  by (simp add: extract_body_def)

lemma extract_body_qualifying:
  "submission_score s = Inr score \<Longrightarrow> meets_upvote_threshold cfg score \<Longrightarrow>
   submission_created_utc s = Inr created \<Longrightarrow> is_in_date_range cfg created \<Longrightarrow>
   submission_title s = Inr title \<Longrightarrow> submission_selftext s = Inr selftext \<Longrightarrow>
   matches_keywords L title (keywords_cfg cfg) \<or>
     matches_keywords L selftext (keywords_cfg cfg) \<Longrightarrow>
   extract_body L cfg s =
     (case extract_comments L cfg s of
        (ev, Inl e) \<Rightarrow> (ev, Inl e)
      | (ev, Inr top_comments) \<Rightarrow>
          (case post_data L s top_comments of
             Inl e \<Rightarrow> (ev, Inl e)
           | Inr d \<Rightarrow> (ev, Inr (Some d))))"
  by (auto simp: extract_body_def)

lemma extract_body_Some:
  "extract_body L cfg s = (ev, Inr (Some d)) \<Longrightarrow>
   \<exists>score created title selftext top_comments.
     submission_score s = Inr score \<and> meets_upvote_threshold cfg score \<and>
     submission_created_utc s = Inr created \<and> is_in_date_range cfg created \<and>
     submission_title s = Inr title \<and> submission_selftext s = Inr selftext \<and>
     (matches_keywords L title (keywords_cfg cfg) \<or>
      matches_keywords L selftext (keywords_cfg cfg)) \<and>
     extract_comments L cfg s = (ev, Inr top_comments) \<and>
     post_data L s top_comments = Inr d"
  unfolding extract_body_def Let_def
  by (auto split: sum.splits if_splits prod.splits)

lemma extract_post_data_Some:
  "extract_post_data L cfg s = (ev, Inr (Some d)) \<Longrightarrow>
   extract_body L cfg s = (ev, Inr (Some d))"
  by (auto simp: extract_post_data_def split: sum.splits prod.splits)










subsection \<open>The sample candidate\<close>

lemma sample_date: "strftime sample_lib 1735689600 = Inr (lit ''2025-01-01 00:00:00'')"
  by code_simp

lemma sample_title_matches:
  "matches_keywords sample_lib (Some (lit ''My Case Opening results'')) (keywords_cfg CONFIG)"
  by (simp add: matches_keywords_def sample_lib_def CONFIG_def ascii_lower_def lit_def)

lemma sample_post_data:
  "post_data sample_lib (sample_submission\<lparr>submission_comments := cs\<rparr>) top_comments =
     Inr (sample_record (if top_comments = [] then [] else json_list top_comments))"
proof -
  have "json_dumps sample_lib = json_list" by (simp add: sample_lib_def)
  then show ?thesis
    by (simp add: post_data_def sample_submission_def sample_record_def sample_date
          author_or_deleted_def lit_def)
qed

lemma sample_extract_body:
  "extract_body sample_lib CONFIG (sample_submission\<lparr>submission_comments := cs\<rparr>) =
     (case extract_comments sample_lib CONFIG (sample_submission\<lparr>submission_comments := cs\<rparr>) of
        (ev, Inl e) \<Rightarrow> (ev, Inl e)
      | (ev, Inr top_comments) \<Rightarrow>
          (ev, Inr (Some (sample_record
             (if top_comments = [] then [] else json_list top_comments)))))"
proof -
  let ?s = "sample_submission\<lparr>submission_comments := cs\<rparr>"
  have 1: "submission_score ?s = Inr 10" by (simp add: sample_submission_def)
  have 2: "meets_upvote_threshold CONFIG 10"
    by (simp add: meets_upvote_threshold_def CONFIG_def)
  have 3: "submission_created_utc ?s = Inr 1735689600" by (simp add: sample_submission_def)
  have 4: "is_in_date_range CONFIG 1735689600"
    by (simp add: is_in_date_range_def CONFIG_def)
  have 5: "submission_title ?s = Inr (Some (lit ''My Case Opening results''))"
    by (simp add: sample_submission_def)
  have 6: "submission_selftext ?s = Inr (Some [])" by (simp add: sample_submission_def)
  from extract_body_qualifying [OF 1 2 3 4 5 6] sample_title_matches
  show ?thesis by (simp add: sample_post_data split: prod.splits sum.splits)
qed

lemma sample_extract:
  "extract_post_data sample_lib CONFIG sample_submission = ([], Inr (Some (sample_record [])))"
proof -
  have eq: "sample_submission = sample_submission\<lparr>submission_comments := Inr []\<rparr>"
    by (simp add: sample_submission_def)
  have "extract_post_data sample_lib CONFIG (sample_submission\<lparr>submission_comments := Inr []\<rparr>) =
          ([], Inr (Some (sample_record [])))"
    by (simp add: extract_post_data_def sample_extract_body extract_comments_def)
  with eq show ?thesis by simp
qed

section \<open>Claims about the item extractor\<close>

text \<open>
  Claim C4. \<open>extract_post_data\<close> returns a record only if the score meets the threshold,
  the creation time lies in the date window, and the title or the body matches a keyword.
  The checks run in this order and the first that fails returns \<open>None\<close> at once: a score
  below the threshold returns \<open>None\<close> with an empty trace whatever the later attributes
  are, even ones that would raise; so does a creation time outside the window once the
  score has passed, and a title and body without a keyword once both have passed.
\<close>

theorem extract_post_data_checks:
  "(snd (extract_post_data L cfg s) = Inr (Some d) \<longrightarrow>
      (\<exists>sc cr title selftext.
         submission_score s = Inr sc \<and> meets_upvote_threshold cfg sc \<and>
         submission_created_utc s = Inr cr \<and> is_in_date_range cfg cr \<and>
         submission_title s = Inr title \<and> submission_selftext s = Inr selftext \<and>
         (matches_keywords L title (keywords_cfg cfg) \<or>
          matches_keywords L selftext (keywords_cfg cfg)))) \<and>
   (submission_score s = Inr score \<and> \<not> meets_upvote_threshold cfg score \<longrightarrow>
      extract_post_data L cfg s = ([], Inr None)) \<and>
   (submission_score s = Inr score \<and> meets_upvote_threshold cfg score \<and>
    submission_created_utc s = Inr created \<and> \<not> is_in_date_range cfg created \<longrightarrow>
      extract_post_data L cfg s = ([], Inr None)) \<and>
   (submission_score s = Inr score \<and> meets_upvote_threshold cfg score \<and>
    submission_created_utc s = Inr created \<and> is_in_date_range cfg created \<and>
    submission_title s = Inr t \<and> submission_selftext s = Inr b \<and>
    \<not> (matches_keywords L t (keywords_cfg cfg) \<or> matches_keywords L b (keywords_cfg cfg)) \<longrightarrow>
      extract_post_data L cfg s = ([], Inr None))"
proof (intro conjI impI)
  assume a: "snd (extract_post_data L cfg s) = Inr (Some d)"
  then obtain ev where "extract_post_data L cfg s = (ev, Inr (Some d))"
    by (cases "extract_post_data L cfg s") simp
  then have "extract_body L cfg s = (ev, Inr (Some d))"
    by (rule extract_post_data_Some)
  from extract_body_Some [OF this]
  show "\<exists>sc cr title selftext.
         submission_score s = Inr sc \<and> meets_upvote_threshold cfg sc \<and>
         submission_created_utc s = Inr cr \<and> is_in_date_range cfg cr \<and>
         submission_title s = Inr title \<and> submission_selftext s = Inr selftext \<and>
         (matches_keywords L title (keywords_cfg cfg) \<or>
          matches_keywords L selftext (keywords_cfg cfg))"
    by blast
next
  assume "submission_score s = Inr score \<and> \<not> meets_upvote_threshold cfg score"
  then show "extract_post_data L cfg s = ([], Inr None)"
    by (simp add: extract_post_data_def extract_body_low_score)
next
  assume "submission_score s = Inr score \<and> meets_upvote_threshold cfg score \<and>
    submission_created_utc s = Inr created \<and> \<not> is_in_date_range cfg created"
  then show "extract_post_data L cfg s = ([], Inr None)"
    by (simp add: extract_post_data_def extract_body_out_of_range)
next
  assume "submission_score s = Inr score \<and> meets_upvote_threshold cfg score \<and>
    submission_created_utc s = Inr created \<and> is_in_date_range cfg created \<and>
    submission_title s = Inr t \<and> submission_selftext s = Inr b \<and>
    \<not> (matches_keywords L t (keywords_cfg cfg) \<or> matches_keywords L b (keywords_cfg cfg))"
  then show "extract_post_data L cfg s = ([], Inr None)"
    by (simp add: extract_post_data_def extract_body_no_match)
qed

theorem extract_post_data_checks_witness:
  "snd (extract_post_data sample_lib CONFIG sample_submission) = Inr (Some (sample_record [])) \<and>
   (\<exists>sc cr title selftext.
      submission_score sample_submission = Inr sc \<and> meets_upvote_threshold CONFIG sc \<and>
      submission_created_utc sample_submission = Inr cr \<and> is_in_date_range CONFIG cr \<and>
      submission_title sample_submission = Inr title \<and>
      submission_selftext sample_submission = Inr selftext \<and>
      (matches_keywords sample_lib title (keywords_cfg CONFIG) \<or>
       matches_keywords sample_lib selftext (keywords_cfg CONFIG))) \<and>
   \<not> meets_upvote_threshold CONFIG 3 \<and>
   extract_post_data sample_lib CONFIG
     (sample_submission\<lparr>submission_score := Inr 3,
        submission_created_utc := Inl (OtherError [])\<rparr>) = ([], Inr None) \<and>
   \<not> is_in_date_range CONFIG 1700000000 \<and>
   extract_post_data sample_lib CONFIG
     (sample_submission\<lparr>submission_created_utc := Inr 1700000000,
        submission_title := Inl (OtherError [])\<rparr>) = ([], Inr None) \<and>
   \<not> matches_keywords sample_lib (Some (lit ''Nice weather'')) (keywords_cfg CONFIG) \<and>
   extract_post_data sample_lib CONFIG
     (sample_submission\<lparr>submission_title := Inr (Some (lit ''Nice weather'')),
        submission_comments := Inl (OtherError [])\<rparr>) = ([], Inr None)"
proof -
  have a: "snd (extract_post_data sample_lib CONFIG sample_submission) =
             Inr (Some (sample_record []))"
    by (simp add: sample_extract)
  have m3: "\<not> meets_upvote_threshold CONFIG 3" and m10: "meets_upvote_threshold CONFIG 10"
    by (simp_all add: meets_upvote_threshold_def CONFIG_def)
  have r1: "\<not> is_in_date_range CONFIG 1700000000"
    and r2: "is_in_date_range CONFIG 1735689600"
    by (simp_all add: is_in_date_range_def CONFIG_def)
  have k1: "\<not> matches_keywords sample_lib (Some (lit ''Nice weather'')) (keywords_cfg CONFIG)"
    by (simp add: matches_keywords_def sample_lib_def CONFIG_def ascii_lower_def lit_def)
  have k2: "\<not> matches_keywords sample_lib (Some []) (keywords_cfg CONFIG)"
    by (simp add: matches_keywords_def)
  note t = extract_post_data_checks [where L = sample_lib and cfg = CONFIG]
  have 1: "\<exists>sc cr title selftext.
      submission_score sample_submission = Inr sc \<and> meets_upvote_threshold CONFIG sc \<and>
      submission_created_utc sample_submission = Inr cr \<and> is_in_date_range CONFIG cr \<and>
      submission_title sample_submission = Inr title \<and>
      submission_selftext sample_submission = Inr selftext \<and>
      (matches_keywords sample_lib title (keywords_cfg CONFIG) \<or>
       matches_keywords sample_lib selftext (keywords_cfg CONFIG))"
    using t [where s = sample_submission and d = "sample_record []"] a by blast
  have 2: "extract_post_data sample_lib CONFIG
     (sample_submission\<lparr>submission_score := Inr 3,
        submission_created_utc := Inl (OtherError [])\<rparr>) = ([], Inr None)"
    using t [where s = "sample_submission\<lparr>submission_score := Inr 3,
        submission_created_utc := Inl (OtherError [])\<rparr>" and score = 3] m3
    by simp
  have 3: "extract_post_data sample_lib CONFIG
     (sample_submission\<lparr>submission_created_utc := Inr 1700000000,
        submission_title := Inl (OtherError [])\<rparr>) = ([], Inr None)"
    using t [where s = "sample_submission\<lparr>submission_created_utc := Inr 1700000000,
        submission_title := Inl (OtherError [])\<rparr>" and score = 10 and created = 1700000000]
      m10 r1
    by (simp add: sample_submission_def)
  have 4: "extract_post_data sample_lib CONFIG
     (sample_submission\<lparr>submission_title := Inr (Some (lit ''Nice weather'')),
        submission_comments := Inl (OtherError [])\<rparr>) = ([], Inr None)"
    using t [where s = "sample_submission\<lparr>submission_title := Inr (Some (lit ''Nice weather'')),
        submission_comments := Inl (OtherError [])\<rparr>" and score = 10 and created = 1735689600
        and t = "Some (lit ''Nice weather'')" and b = "Some []"]
      m10 r2 k1 k2
    by (simp add: sample_submission_def)
  from a 1 m3 2 r1 3 k1 4 show ?thesis by blast
qed














section \<open>The cross-group deduplicator\<close>

lemma py_eq_sym: "py_eq a b \<Longrightarrow> py_eq b a"
  by (cases a; cases b) auto

lemma py_eq_trans: "py_eq a b \<Longrightarrow> py_eq b c \<Longrightarrow> py_eq a c"
  by (cases a; cases b; cases c) auto

lemma py_eq_refl: "py_eq a a"
  by (cases a) auto

lemma seen_absorbs:
  "list_ex (py_eq w) seen \<Longrightarrow>
   list_ex (py_eq v) (seen @ w # rest) = list_ex (py_eq v) (seen @ rest)"
  by (auto simp: list_ex_iff dest: py_eq_trans)

lemma unique_loop_prefixes:
  "\<forall>p \<in> set ps. has_post_id p \<Longrightarrow>
   unique_loop ps seen acc =
     Inr (acc @ map snd (filter (\<lambda>(before, p).
            \<not> list_ex (py_eq (post_id_of p)) (seen @ map post_id_of before))
          (zip (prefixes ps) ps)))"
proof (induction ps arbitrary: seen acc)
  case Nil
  then show ?case by simp
next
  case (Cons p ps)
  from Cons.prems obtain v where v: "map_of p (lit ''post_id'') = Some v"
    by (auto simp: has_post_id_def)
  then have pv: "post_id_of p = v" by (simp add: post_id_of_def)
  from Cons.prems have rest: "\<forall>p \<in> set ps. has_post_id p" by simp
  have z: "zip (map ((#) p) (prefixes ps)) ps = map (\<lambda>(b, q). (p # b, q)) (zip (prefixes ps) ps)"
    by (simp add: zip_map1)
  show ?case
  proof (cases "list_ex (py_eq v) seen")
    case True
    then have "\<And>u. py_eq u v \<Longrightarrow> list_ex (py_eq u) seen"
      by (auto simp: list_ex_iff dest: py_eq_trans)
    then have absorb: "\<And>u R. (\<not> list_ex (py_eq u) seen \<and> \<not> py_eq u v \<and> R) =
        (\<not> list_ex (py_eq u) seen \<and> R)"
      by auto
    from True show ?thesis
      using Cons.IH [OF rest, of seen acc] v pv
      by (simp add: z filter_map comp_def case_prod_unfold absorb)
  next
    case False
    then show ?thesis
      using Cons.IH [OF rest, of "seen @ [v]" "acc @ [p]"] v pv
      by (simp add: z filter_map comp_def case_prod_unfold)
  qed
qed

lemma nth_prefixes: "i \<le> length ps \<Longrightarrow> prefixes ps ! i = take i ps"
proof (induction ps arbitrary: i)
  case Nil
  then show ?case by simp
next
  case (Cons p ps)
  then show ?case by (cases i) simp_all
qed

lemma zip_prefixes: "zip (prefixes ps) ps = map (\<lambda>i. (take i ps, ps ! i)) [0..<length ps]"
  by (rule nth_equalityI) (simp_all add: nth_prefixes)

lemma first_seen_take:
  assumes "i < length ps"
  shows "list_ex (py_eq v) (map post_id_of (take i ps)) =
         (\<exists>j<i. py_eq v (post_id_of (ps ! j)))"
proof
  assume "list_ex (py_eq v) (map post_id_of (take i ps))"
  then obtain x where x: "x \<in> set (take i ps)" "py_eq v (post_id_of x)"
    by (auto simp: list_ex_iff)
  from x(1) obtain j where "j < length (take i ps)" "take i ps ! j = x"
    by (auto simp: in_set_conv_nth)
  with assms have "j < i" "ps ! j = x" by simp_all
  with x(2) show "\<exists>j<i. py_eq v (post_id_of (ps ! j))" by blast
next
  assume "\<exists>j<i. py_eq v (post_id_of (ps ! j))"
  then obtain j where j: "j < i" "py_eq v (post_id_of (ps ! j))" by blast
  with assms have "take i ps ! j = ps ! j" "j < length (take i ps)" by simp_all
  then have "ps ! j \<in> set (take i ps)" by (metis nth_mem)
  with j(2) show "list_ex (py_eq v) (map post_id_of (take i ps))"
    by (auto simp: list_ex_iff)
qed

text \<open>
  Claim C3. On a list of records that each carry a \<open>post_id\<close>, the deduplication loop
  of \<open>main\<close> returns the records at exactly those positions whose \<open>post_id\<close> occurs at
  no earlier position, in their original order.
\<close>

theorem unique_posts_first_occurrences:
  "\<forall>p \<in> set ps. has_post_id p \<Longrightarrow>
   unique_loop ps [] [] =
     Inr (map (\<lambda>i. ps ! i)
            (filter (\<lambda>i. \<forall>j<i. \<not> py_eq (post_id_of (ps ! i)) (post_id_of (ps ! j)))
               [0..<length ps]))"
proof -
  assume a: "\<forall>p \<in> set ps. has_post_id p"
  have "map snd (filter (\<lambda>(before, p).
            \<not> list_ex (py_eq (post_id_of p)) ([] @ map post_id_of before))
          (zip (prefixes ps) ps)) =
        map (\<lambda>i. ps ! i)
            (filter (\<lambda>i. \<not> list_ex (py_eq (post_id_of (ps ! i))) (map post_id_of (take i ps)))
               [0..<length ps])"
    by (simp add: zip_prefixes filter_map comp_def)
  also have "\<dots> = map (\<lambda>i. ps ! i)
            (filter (\<lambda>i. \<forall>j<i. \<not> py_eq (post_id_of (ps ! i)) (post_id_of (ps ! j)))
               [0..<length ps])"
    by (rule arg_cong [where f = "map (\<lambda>i. ps ! i)"], rule filter_cong)
       (simp_all add: first_seen_take)
  finally show ?thesis
    using unique_loop_prefixes [OF a, of "[]" "[]"] by simp
qed

theorem unique_posts_first_occurrences_witness:
  "list_all has_post_id
     [post_row (Str (lit ''a'')) (lit ''1''), post_row (Str (lit ''b'')) (lit ''2''),
      post_row (Str (lit ''a'')) (lit ''3''), post_row (Str (lit ''c'')) (lit ''4''),
      post_row (Str (lit ''b'')) (lit ''5'')] \<and>
   unique_loop
     [post_row (Str (lit ''a'')) (lit ''1''), post_row (Str (lit ''b'')) (lit ''2''),
      post_row (Str (lit ''a'')) (lit ''3''), post_row (Str (lit ''c'')) (lit ''4''),
      post_row (Str (lit ''b'')) (lit ''5'')] [] [] =
     Inr [post_row (Str (lit ''a'')) (lit ''1''), post_row (Str (lit ''b'')) (lit ''2''),
      post_row (Str (lit ''c'')) (lit ''4'')] \<and>
   map (\<lambda>i. [post_row (Str (lit ''a'')) (lit ''1''), post_row (Str (lit ''b'')) (lit ''2''),
      post_row (Str (lit ''a'')) (lit ''3''), post_row (Str (lit ''c'')) (lit ''4''),
      post_row (Str (lit ''b'')) (lit ''5'')] ! i)
     (filter (\<lambda>i. \<forall>j<i. \<not> py_eq (post_id_of ([post_row (Str (lit ''a'')) (lit ''1''), post_row (Str (lit ''b'')) (lit ''2''),
      post_row (Str (lit ''a'')) (lit ''3''), post_row (Str (lit ''c'')) (lit ''4''),
      post_row (Str (lit ''b'')) (lit ''5'')] ! i)) (post_id_of ([post_row (Str (lit ''a'')) (lit ''1''), post_row (Str (lit ''b'')) (lit ''2''),
      post_row (Str (lit ''a'')) (lit ''3''), post_row (Str (lit ''c'')) (lit ''4''),
      post_row (Str (lit ''b'')) (lit ''5'')] ! j)))
        [0..<length [post_row (Str (lit ''a'')) (lit ''1''), post_row (Str (lit ''b'')) (lit ''2''),
      post_row (Str (lit ''a'')) (lit ''3''), post_row (Str (lit ''c'')) (lit ''4''),
      post_row (Str (lit ''b'')) (lit ''5'')]]) =
     [post_row (Str (lit ''a'')) (lit ''1''), post_row (Str (lit ''b'')) (lit ''2''),
      post_row (Str (lit ''c'')) (lit ''4'')]"
proof -
  let ?ps = "[post_row (Str (lit ''a'')) (lit ''1''), post_row (Str (lit ''b'')) (lit ''2''),
      post_row (Str (lit ''a'')) (lit ''3''), post_row (Str (lit ''c'')) (lit ''4''),
      post_row (Str (lit ''b'')) (lit ''5'')]"
  let ?res = "[post_row (Str (lit ''a'')) (lit ''1''), post_row (Str (lit ''b'')) (lit ''2''),
      post_row (Str (lit ''c'')) (lit ''4'')]"
  let ?idx = "map (\<lambda>i. ?ps ! i)
     (filter (\<lambda>i. \<forall>j<i. \<not> py_eq (post_id_of (?ps ! i)) (post_id_of (?ps ! j)))
        [0..<length ?ps])"
  have h: "\<forall>p \<in> set ?ps. has_post_id p"
    by (simp add: has_post_id_def post_row_def)
  have m: "\<And>v t. map_of (post_row v t) (lit ''post_id'') = Some v"
    by (simp add: post_row_def)
  have ne: "lit ''a'' \<noteq> lit ''b''" "lit ''a'' \<noteq> lit ''c''" "lit ''b'' \<noteq> lit ''c''"
    by (simp_all add: lit_def)
  have d: "unique_loop ?ps [] [] = Inr ?res"
    using ne by (simp add: m)
  have t: "unique_loop ?ps [] [] = Inr ?idx"
    by (rule unique_posts_first_occurrences [OF h])
  from t d have "Inr ?idx = (Inr ?res :: exn + pydict list)"
    by (rule trans [OF sym])
  then have e: "?idx = ?res" by (rule Inr_inject)
  from h have la: "list_all has_post_id ?ps" by (simp only: list_all_iff)
  from la d e show ?thesis by (intro conjI)
qed

section \<open>The incremental persister\<close>

lemma distinct_column_order: "distinct column_order"
  by (simp add: column_order_def lit_def)

lemma post_id_column: "lit ''post_id'' \<in> set column_order"
  by (simp add: column_order_def)

lemma cell_at_map:
  "distinct cs \<Longrightarrow> cell_at cs (map f cs) c = (if c \<in> set cs then f c else None)"
  by (simp add: cell_at_def map_of_zip_map)


lemma columns_ensure_columns_mono:
  "set (columns df) \<subseteq> set (columns (ensure_columns cols df))"
proof (induction cols arbitrary: df)
  case Nil
  then show ?case by simp
next
  case (Cons c cols)
  let ?df = "if c \<notin> set (columns df) then add_column df c (Str []) else df"
  have "set (columns df) \<subseteq> set (columns ?df)"
    by (auto simp: add_column_def)
  also have "\<dots> \<subseteq> set (columns (ensure_columns cols ?df))"
    by (rule Cons.IH)
  finally show ?case by simp
qed

lemma columns_ensure_columns:
  "set cols \<subseteq> set (columns (ensure_columns cols df))"
proof (induction cols arbitrary: df)
  case Nil
  then show ?case by simp
next
  case (Cons c cols)
  let ?df = "if c \<notin> set (columns df) then add_column df c (Str []) else df"
  have "c \<in> set (columns ?df)" by (simp add: add_column_def)
  with columns_ensure_columns_mono [of ?df cols] have "c \<in> set (columns (ensure_columns cols ?df))"
    by blast
  with Cons.IH [of ?df] show ?case by simp
qed

lemma select_ensured:
  "\<exists>rs. select_columns (ensure_columns column_order (DataFrame posts)) column_order =
     Inr \<lparr>columns = column_order, rows = rs\<rparr>"
proof -
  have "filter (\<lambda>c. c \<notin> set (columns (ensure_columns column_order (DataFrame posts))))
          column_order = []"
    using columns_ensure_columns [of column_order "DataFrame posts"]
    by (auto simp: filter_empty_conv)
  then show ?thesis by (simp add: select_columns_def)
qed


lemma map_of_zip_replicate:
  "map_of (zip cs (replicate (length cs) v)) c = (if c \<in> set cs then Some v else None)"
  by (induction cs) auto

lemma cell_at_padded:
  assumes "length r = length cs"
  shows "cell_at (cs @ added) (r @ replicate (length added) v) c =
           (if c \<in> set cs then cell_at cs r c else if c \<in> set added then v else None)"
proof (cases "c \<in> set cs")
  case True
  with assms obtain x where x: "map_of (zip cs r) c = Some x"
    by (metis map_of_zip_is_None not_Some_eq)
  from assms True show ?thesis
    by (simp add: cell_at_def map_add_def x)
next
  case False
  with assms have n: "map_of (zip cs r) c = None"
    by (simp add: map_of_zip_is_None)
  from assms False show ?thesis
    by (simp add: cell_at_def map_add_def map_of_zip_replicate n)
qed

lemma ensure_columns_shape:
  "\<exists>added. columns (ensure_columns cols df) = columns df @ added \<and>
           rows (ensure_columns cols df) =
             map (\<lambda>r. r @ replicate (length added) (Some (Str []))) (rows df) \<and>
           set added = set cols - set (columns df)"
proof (induction cols arbitrary: df)
  case Nil
  then show ?case by simp
next
  case (Cons c cols)
  show ?case
  proof (cases "c \<in> set (columns df)")
    case True
    with Cons.IH [of df] show ?thesis by auto
  next
    case False
    let ?df = "add_column df c (Str [])"
    from Cons.IH [of ?df] obtain added where a:
      "columns (ensure_columns cols ?df) = columns ?df @ added"
      "rows (ensure_columns cols ?df) =
         map (\<lambda>r. r @ replicate (length added) (Some (Str []))) (rows ?df)"
      "set added = set cols - set (columns ?df)"
      by blast
    have 1: "columns (ensure_columns (c # cols) df) = columns df @ (c # added)"
      using False a(1) by (simp add: add_column_def)
    have 2: "rows (ensure_columns (c # cols) df) =
               map (\<lambda>r. r @ replicate (length (c # added)) (Some (Str []))) (rows df)"
      using False a(2) by (simp add: add_column_def comp_def)
    have 3: "set (c # added) = set (c # cols) - set (columns df)"
      using False a(3) by (auto simp: add_column_def)
    from 1 2 3 show ?thesis by blast
  qed
qed

text \<open>The keys of a list of dictionaries.\<close>

lemma columns_DataFrame: "set (columns (DataFrame posts)) = (\<Union>p \<in> set posts. fst ` set p)"
  by (auto simp: DataFrame_def Let_def)

lemma created_table:
  "select_columns (ensure_columns column_order (DataFrame posts)) column_order =
     Inr \<lparr>columns = column_order,
          rows = map (\<lambda>p. map (\<lambda>c. if c \<in> (\<Union>q \<in> set posts. fst ` set q) then map_of p c
                                   else Some (Str [])) column_order) posts\<rparr>"
proof -
  let ?df = "DataFrame posts"
  let ?keys = "columns ?df"
  from ensure_columns_shape [of column_order ?df] obtain added where a:
    "columns (ensure_columns column_order ?df) = ?keys @ added"
    "rows (ensure_columns column_order ?df) =
       map (\<lambda>r. r @ replicate (length added) (Some (Str []))) (rows ?df)"
    "set added = set column_order - set ?keys"
    by blast
  have d: "distinct ?keys" by (simp add: DataFrame_def Let_def)
  have r: "rows ?df = map (\<lambda>p. map (map_of p) ?keys) posts"
    by (simp add: DataFrame_def Let_def)
  have f: "filter (\<lambda>c. c \<notin> set (columns (ensure_columns column_order ?df))) column_order = []"
    using columns_ensure_columns [of column_order ?df] by (auto simp: filter_empty_conv)
  have cell: "cell_at (?keys @ added)
               (map (map_of p) ?keys @ replicate (length added) (Some (Str []))) c =
             (if c \<in> (\<Union>q \<in> set posts. fst ` set q) then map_of p c else Some (Str []))"
    if "c \<in> set column_order" for p c
    using that a(3) cell_at_padded [of "map (map_of p) ?keys" ?keys added "Some (Str [])" c]
    by (auto simp: cell_at_map [OF d] columns_DataFrame)
  have "map (\<lambda>r. map (cell_at (?keys @ added) r) column_order)
          (map (\<lambda>r. r @ replicate (length added) (Some (Str []))) (rows ?df)) =
        map (\<lambda>p. map (\<lambda>c. if c \<in> (\<Union>q \<in> set posts. fst ` set q) then map_of p c
                                   else Some (Str [])) column_order) posts"
    unfolding r by (simp add: comp_def cell cong: map_cong)
  with f a(1,2) show ?thesis by (simp add: select_columns_def)
qed



lemma complete_has_post_id: "complete_record p \<Longrightarrow> has_post_id p"
  using post_id_column by (auto simp: complete_record_def has_post_id_def list_all_iff)





text \<open>What \<open>save_to_csv\<close> does when there is no dataset yet.\<close>

lemma save_to_csv_new:
  assumes posts: "posts \<noteq> []"
    and ex: "fs (case filename of None \<Rightarrow> output_file cfg | Some f \<Rightarrow> f) = None"
  shows "save_to_csv L cfg posts filename fs =
     ([Log INFO, Log INFO], None,
      fs((case filename of None \<Rightarrow> output_file cfg | Some f \<Rightarrow> f) \<mapsto>
         \<lparr>columns = column_order,
          rows = map (\<lambda>p. map (\<lambda>c. if c \<in> (\<Union>q \<in> set posts. fst ` set q) then map_of p c
                                   else Some (Str [])) column_order) posts\<rparr>))"
  using assms by (simp add: save_to_csv_def save_body_def created_table)


lemma length_row_of [simp]: "length (row_of cols p) = length cols"
  by (simp add: row_of_def)

lemma cell_at_row_of:
  "distinct cols \<Longrightarrow> c \<in> set cols \<Longrightarrow> c \<in> set column_order \<Longrightarrow>
   cell_at cols (row_of cols p) c = map_of p c"
  by (simp add: row_of_def cell_at_map)

lemma ids_of_append:
  assumes "distinct cols" "lit ''post_id'' \<in> set cols" "list_all has_post_id ps"
  shows "ids_of L \<lparr>columns = cols, rows = rs @ map (row_of cols) ps\<rparr> =
         ids_of L \<lparr>columns = cols, rows = rs\<rparr> \<union> (\<lambda>p. py_str L (post_id_of p)) ` set ps"
proof -
  have "cell_str L (cell_at cols (row_of cols p) (lit ''post_id'')) = py_str L (post_id_of p)"
    if "p \<in> set ps" for p
  proof -
    from that assms(3) obtain v where "map_of p (lit ''post_id'') = Some v"
      by (auto simp: list_all_iff has_post_id_def)
    then show ?thesis
      using cell_at_row_of [OF assms(1,2) post_id_column, of p]
      by (simp add: cell_str_def post_id_of_def)
  qed
  then have "(\<lambda>p. cell_str L (cell_at cols (row_of cols p) (lit ''post_id''))) ` set ps =
             (\<lambda>p. py_str L (post_id_of p)) ` set ps"
    by (intro image_cong) simp_all
  then show ?thesis
    by (simp add: ids_of_def image_Un image_image)
qed




text \<open>
  Claim C10. Called with an empty list of records, \<open>save_to_csv\<close> returns at once: it
  logs a warning, raises nothing, and leaves every file as it was, present or absent.
\<close>

theorem save_to_csv_empty_list:
  "save_to_csv L cfg [] filename fs = ([Log WARNING], None, fs)"
  by (simp add: save_to_csv_def)


lemma complete_post_row: "complete_record (post_row v t)"
  by (simp add: complete_record_def column_order_def post_row_def lit_def)


lemma ids_of_stored:
  "list_all has_post_id posts \<Longrightarrow>
   ids_of L (stored posts) = (\<lambda>p. py_str L (post_id_of p)) ` set posts"
  using ids_of_append [OF distinct_column_order post_id_column, of posts L "[]"]
  by (simp add: stored_def ids_of_def)

lemma post_id_of_post_row: "post_id_of (post_row v t) = v"
  by (simp add: post_id_of_def post_row_def)







lemma save_body_select_error:
  assumes "fs path = Some old" "lit ''post_id'' \<in> set (columns old)"
    and "new_posts_of L (ids_of L old) posts = Inr new" "new \<noteq> []"
    and "select_columns (DataFrame new) column_order = Inl e"
  shows "save_body L posts path fs = ([], Some e, fs)"
  using assms by (simp add: save_body_def created_table ids_of_def)

lemma select_without_replies:
  "select_columns (DataFrame [post_without_replies v t]) column_order =
     Inl (KeyError (lit ''top_comments''))"
  by (simp add: select_columns_def DataFrame_def post_without_replies_def post_row_def
        column_order_def lit_def)

lemma created_without_replies:
  "map (\<lambda>p. map (\<lambda>c. if c \<in> (\<Union>q \<in> set [post_without_replies v t]. fst ` set q)
                       then map_of p c else Some (Str [])) column_order)
     [post_without_replies v t] =
   map (row_of column_order) [post_row v t]"
  by (simp add: row_of_def post_without_replies_def post_row_def column_order_def lit_def)

text \<open>
  Claim C8 at a record that lacks the \<open>top_comments\<close> field. When no dataset exists the
  column is created and filled with the empty string, and the written table is the one a
  complete record gives. When a dataset exists, the same record makes \<open>save_to_csv\<close> raise
  \<open>KeyError\<close>: nothing is written and the missing column is not created.
\<close>

theorem save_to_csv_missing_column:
  "save_to_csv sample_lib CONFIG
     [post_without_replies (Str (lit ''z'')) (lit ''first z'')] None Map.empty =
     ([Log INFO, Log INFO], None,
      [output_file CONFIG \<mapsto> stored [post_row (Str (lit ''z'')) (lit ''first z'')]]) \<and>
   save_to_csv sample_lib CONFIG
     [post_without_replies (Str (lit ''z'')) (lit ''first z'')] None
     [output_file CONFIG \<mapsto> stored [post_row (Str (lit ''x'')) (lit ''first x'')]] =
     ([Log ERROR], Some (KeyError (lit ''top_comments'')),
      [output_file CONFIG \<mapsto> stored [post_row (Str (lit ''x'')) (lit ''first x'')]])"
proof -
  let ?p = "post_without_replies (Str (lit ''z'')) (lit ''first z'')"
  let ?x = "post_row (Str (lit ''x'')) (lit ''first x'')"
  let ?fs = "[output_file CONFIG \<mapsto> stored [?x]]"
  have ne: "[?p] \<noteq> []" by simp
  have 1: "save_to_csv sample_lib CONFIG [?p] None Map.empty =
     ([Log INFO, Log INFO], None,
      [output_file CONFIG \<mapsto> stored [post_row (Str (lit ''z'')) (lit ''first z'')]])"
    using save_to_csv_new
            [where L = sample_lib and cfg = CONFIG and filename = None and fs = Map.empty
               and posts = "[?p]", OF ne, unfolded created_without_replies]
    by (simp add: stored_def)
  have h: "map_of ?p (lit ''post_id'') = Some (Str (lit ''z''))"
    by (simp add: post_without_replies_def post_row_def)
  have ids: "ids_of sample_lib (stored [?x]) = {lit ''x''}"
    by (simp add: ids_of_stored complete_has_post_id complete_post_row post_id_of_post_row
          py_str_def)
  have zx: "lit ''z'' \<noteq> lit ''x''" by (simp add: lit_def)
  have n: "new_posts_of sample_lib (ids_of sample_lib (stored [?x])) [?p] = Inr [?p]"
    using zx by (simp add: h ids py_str_def)
  have c: "lit ''post_id'' \<in> set (columns (stored [?x]))"
    by (simp add: stored_def post_id_column)
  have e: "?fs (output_file CONFIG) = Some (stored [?x])" by simp
  have "save_body sample_lib [?p] (output_file CONFIG) ?fs =
          ([], Some (KeyError (lit ''top_comments'')), ?fs)"
    by (rule save_body_select_error
          [where fs = ?fs and path = "output_file CONFIG" and old = "stored [?x]",
           OF e c n ne select_without_replies])
  then have 2: "save_to_csv sample_lib CONFIG [?p] None ?fs =
     ([Log ERROR], Some (KeyError (lit ''top_comments'')), ?fs)"
    by (simp add: save_to_csv_def)
  from 1 2 show ?thesis by blast
qed

section \<open>The retrying transport and the query loops\<close>

lemma attempts_loop_all_fail:
  "\<forall>k \<in> set ks. func k = Inl (e k) \<Longrightarrow>
   attempts_loop L cfg func ks prev =
     (concat (map (\<lambda>k. Sleep (request_delay cfg) # on_failure L cfg k (e k)) ks) @ [Log ERROR],
      Inl (if ks = []
           then (case prev of
                   None \<Rightarrow> TypeError (lit ''exceptions must derive from BaseException'')
                 | Some x \<Rightarrow> x)
           else e (last ks)))"
  by (induction ks arbitrary: prev) auto

lemma sleeps_append [simp]: "sleeps (a @ b) = sleeps a @ sleeps b"
  by (induction a rule: sleeps.induct) simp_all

lemma sleeps_on_failure:
  "sleeps (on_failure L cfg k ex) =
     (case ex of
        RedditAPIException m \<Rightarrow>
          if rate_limited L m then [retry_delay cfg * (real k + 1)] else []
      | _ \<Rightarrow> [retry_delay cfg])"
  by (cases ex) (simp_all add: on_failure_def)

text \<open>
  Claim C9, as the code has it. When every attempt of \<open>safe_api_call\<close> fails (and at
  least one attempt is configured), there are exactly \<open>max_retries\<close> attempts, each preceded
  by the request delay and followed by the handling of its exception, and the exception of
  the last attempt is raised. The wait after a failed attempt depends on the exception: a
  Reddit API error whose message shows a rate limit waits the retry delay times the attempt
  number (counted from one); any other Reddit API error does not wait; every other
  exception waits the plain retry delay. In the loop over the keywords an exception from
  \<open>safe_api_call\<close> is logged as a warning and the loop goes on with the remaining
  keywords, the records collected so far being kept; and the loop over the groups goes on
  with the remaining groups after each group.
\<close>

theorem safe_api_call_failures:
  "((\<forall>k < nat (max_retries cfg). func k = Inl (e k)) \<and> 0 < max_retries cfg \<longrightarrow>
      safe_api_call L cfg func =
        (concat (map (\<lambda>k. Sleep (request_delay cfg) # on_failure L cfg k (e k))
                   [0 ..< nat (max_retries cfg)]) @ [Log ERROR],
         Inl (e (nat (max_retries cfg) - 1)))) \<and>
   sleeps (on_failure L cfg k ex) =
     (case ex of
        RedditAPIException m \<Rightarrow>
          if rate_limited L m then [retry_delay cfg * (real k + 1)] else []
      | _ \<Rightarrow> [retry_delay cfg]) \<and>
   (safe_api_call L cfg (search keyword) = (ev, Inl ex) \<longrightarrow>
      keywords_loop L cfg search (keyword # rest) posts_data =
        (Log INFO # ev @ Log WARNING # fst (keywords_loop L cfg search rest posts_data),
         snd (keywords_loop L cfg search rest posts_data))) \<and>
   snd (subreddits_loop L cfg reddit (name # names) all_posts_data) =
     snd (subreddits_loop L cfg reddit names
            (all_posts_data @ snd (search_subreddit L cfg reddit name 1000)))"
proof (intro conjI impI)
  assume a: "(\<forall>k < nat (max_retries cfg). func k = Inl (e k)) \<and> 0 < max_retries cfg"
  then have "\<forall>k \<in> set [0 ..< nat (max_retries cfg)]. func k = Inl (e k)" by simp
  from attempts_loop_all_fail [OF this, of L cfg None] a
  show "safe_api_call L cfg func =
        (concat (map (\<lambda>k. Sleep (request_delay cfg) # on_failure L cfg k (e k))
                   [0 ..< nat (max_retries cfg)]) @ [Log ERROR],
         Inl (e (nat (max_retries cfg) - 1)))"
    by (simp add: safe_api_call_def last_upt)
next
  show "sleeps (on_failure L cfg k ex) =
     (case ex of
        RedditAPIException m \<Rightarrow>
          if rate_limited L m then [retry_delay cfg * (real k + 1)] else []
      | _ \<Rightarrow> [retry_delay cfg])"
    by (rule sleeps_on_failure)
next
  assume "safe_api_call L cfg (search keyword) = (ev, Inl ex)"
  then show "keywords_loop L cfg search (keyword # rest) posts_data =
        (Log INFO # ev @ Log WARNING # fst (keywords_loop L cfg search rest posts_data),
         snd (keywords_loop L cfg search rest posts_data))"
    by (simp add: case_prod_unfold)
next
  show "snd (subreddits_loop L cfg reddit (name # names) all_posts_data) =
     snd (subreddits_loop L cfg reddit names
            (all_posts_data @ snd (search_subreddit L cfg reddit name 1000)))"
    by (simp add: case_prod_unfold)
qed


lemma three_attempts: "[0 ..< nat (max_retries CONFIG)] = [0, 1, 2]"
  by (simp add: CONFIG_def upt_rec)

lemma sample_rate_limited: "rate_limited sample_lib (lit ''rate_limit exceeded'')"
  by (simp add: rate_limited_def sample_lib_def ascii_upper_def lit_def)

lemma sample_not_rate_limited: "\<not> rate_limited sample_lib (lit ''SUBREDDIT_NOEXIST'')"
  by (simp add: rate_limited_def sample_lib_def ascii_upper_def lit_def)

text \<open>
  Claim C9 as stated fails: when every attempt raises a client error the wait after each
  failed attempt is the plain retry delay, 5 seconds after the second attempt and not 10;
  and when every attempt raises a Reddit API error that is no rate limit there is no wait
  beyond the request delay.
\<close>

theorem backoff_not_always_increasing:
  "safe_api_call sample_lib CONFIG
     (\<lambda>k. Inl (ClientException (lit ''timeout'')) :: exn + submission list) =
     ([Sleep 1, Log WARNING, Sleep 5, Sleep 1, Log WARNING, Sleep 5,
       Sleep 1, Log WARNING, Sleep 5, Log ERROR],
      Inl (ClientException (lit ''timeout''))) \<and>
   safe_api_call sample_lib CONFIG
     (\<lambda>k. Inl (RedditAPIException (lit ''SUBREDDIT_NOEXIST'')) :: exn + submission list) =
     ([Sleep 1, Log WARNING, Sleep 1, Log WARNING, Sleep 1, Log WARNING, Log ERROR],
      Inl (RedditAPIException (lit ''SUBREDDIT_NOEXIST''))) \<and>
   retry_delay CONFIG * (real 1 + 1) = 10"
proof -
  have r: "request_delay CONFIG = 1" "retry_delay CONFIG = 5"
    by (simp_all add: CONFIG_def)
  have 1: "safe_api_call sample_lib CONFIG
     (\<lambda>k. Inl (ClientException (lit ''timeout'')) :: exn + submission list) =
     ([Sleep 1, Log WARNING, Sleep 5, Sleep 1, Log WARNING, Sleep 5,
       Sleep 1, Log WARNING, Sleep 5, Log ERROR],
      Inl (ClientException (lit ''timeout'')))"
    by (simp add: safe_api_call_def three_attempts on_failure_def r)
  have 2: "safe_api_call sample_lib CONFIG
     (\<lambda>k. Inl (RedditAPIException (lit ''SUBREDDIT_NOEXIST'')) :: exn + submission list) =
     ([Sleep 1, Log WARNING, Sleep 1, Log WARNING, Sleep 1, Log WARNING, Log ERROR],
      Inl (RedditAPIException (lit ''SUBREDDIT_NOEXIST'')))"
    by (simp add: safe_api_call_def three_attempts on_failure_def r sample_not_rate_limited)
  from 1 2 r show ?thesis by simp
qed

theorem safe_api_call_failures_witness:
  "0 < max_retries CONFIG \<and>
   safe_api_call sample_lib CONFIG
     (\<lambda>k. Inl (RedditAPIException (lit ''rate_limit exceeded'')) :: exn + submission list) =
     ([Sleep 1, Log WARNING, Log WARNING, Sleep 5,
       Sleep 1, Log WARNING, Log WARNING, Sleep 10,
       Sleep 1, Log WARNING, Log WARNING, Sleep 15, Log ERROR],
      Inl (RedditAPIException (lit ''rate_limit exceeded''))) \<and>
   snd (keywords_loop sample_lib CONFIG
          (\<lambda>keyword k. Inl (RedditAPIException (lit ''rate_limit exceeded'')))
          [lit ''gambling'', lit ''lootbox''] [sample_record []]) = [sample_record []]"
proof -
  let ?ex = "RedditAPIException (lit ''rate_limit exceeded'')"
  let ?f = "\<lambda>k::nat. Inl ?ex :: exn + submission list"
  let ?search = "\<lambda>(keyword::pystr) (k::nat). Inl ?ex :: exn + submission list"
  let ?ev = "[Sleep 1, Log WARNING, Log WARNING, Sleep 5,
       Sleep 1, Log WARNING, Log WARNING, Sleep 10,
       Sleep 1, Log WARNING, Log WARNING, Sleep 15, Log ERROR]"
  note t = safe_api_call_failures [where L = sample_lib and cfg = CONFIG]
  have m: "0 < max_retries CONFIG" by (simp add: CONFIG_def)
  have r: "request_delay CONFIG = 1" "retry_delay CONFIG = 5" "nat (max_retries CONFIG) = 3"
    by (simp_all add: CONFIG_def)
  have a: "safe_api_call sample_lib CONFIG ?f = (?ev, Inl ?ex)"
    using t [where func = ?f and e = "\<lambda>k. ?ex"] m
    by (simp add: three_attempts on_failure_def sample_rate_limited r(1,2))
  have "snd (keywords_loop sample_lib CONFIG ?search
               [lit ''gambling'', lit ''lootbox''] [sample_record []]) =
        snd (keywords_loop sample_lib CONFIG ?search [lit ''lootbox''] [sample_record []])"
    using t [where search = ?search and keyword = "lit ''gambling''" and ev = ?ev and ex = ?ex
               and rest = "[lit ''lootbox'']" and posts_data = "[sample_record []]"] a
    by simp
  also have "\<dots> = snd (keywords_loop sample_lib CONFIG ?search [] [sample_record []])"
    using t [where search = ?search and keyword = "lit ''lootbox''" and ev = ?ev and ex = ?ex
               and rest = "[]" and posts_data = "[sample_record []]"] a
    by simp
  finally have k: "snd (keywords_loop sample_lib CONFIG ?search
               [lit ''gambling'', lit ''lootbox''] [sample_record []]) = [sample_record []]"
    by simp
  from m a k show ?thesis by blast
qed

end
